theory Spec2Isabelle
  imports Complex_Main "HOL-Library.Multiset"
begin

section \<open>Strings, numbers and regular expressions of the host language\<close>

text \<open>
  The analyzer reads its input one UTF-16 code unit at a time, so an input string is a
  list of code units. \<open>js\<close> embeds an ASCII literal. Keys of objects (intent, layout
  and component-type names) are only ever compared with ASCII literals and stay
  \<open>string\<close>s.

  A \<open>number\<close> is modelled by the exact rational it denotes: decimal literals such as
  \<open>0.08\<close> are the fractions they are written as, and \<open>NaN\<close>, the infinities and binary
  rounding are outside the model.
\<close>

type_synonym jsstring = "nat list"

type_synonym number = rat

definition js :: "string \<Rightarrow> jsstring" where
  "js s = map of_char s"

text \<open>
  The fragment of regular expressions the pattern tables use, all under the \<open>i\<close> flag
  and without the \<open>g\<close> flag (so \<open>test\<close> keeps no state between calls):
  literal text, \<open>\s\<close>, a character class, \<open>\b\<close>, sequence, alternation, \<open>?\<close>, and
  \<open>+\<close> and \<open>*\<close> on a character set.
\<close>

datatype cset = Lit char | Space | Union cset cset

datatype rx =
    Str string
  | Cls cset
  | WordB
  | Seq "rx list"
  | Alt "rx list"
  | Opt rx
  | Plus cset
  | Star cset

text \<open>
  Case-insensitive comparison folds the ASCII letters; a code unit from 128 on never
  folds to an ASCII one, and every pattern character is ASCII.
\<close>

definition canonicalize :: "nat \<Rightarrow> nat" where
  "canonicalize u = (if 97 \<le> u \<and> u \<le> 122 then u - 32 else u)"

definition is_space :: "nat \<Rightarrow> bool" where
  "is_space u \<longleftrightarrow>
     (9 \<le> u \<and> u \<le> 13) \<or> u = 32 \<or> u = 160 \<or> u = 5760 \<or> (8192 \<le> u \<and> u \<le> 8202)
     \<or> u = 8232 \<or> u = 8233 \<or> u = 8239 \<or> u = 8287 \<or> u = 12288 \<or> u = 65279"

definition is_word :: "nat \<Rightarrow> bool" where
  "is_word u \<longleftrightarrow>
     (48 \<le> u \<and> u \<le> 57) \<or> (65 \<le> u \<and> u \<le> 90) \<or> u = 95 \<or> (97 \<le> u \<and> u \<le> 122)"

fun in_cset :: "cset \<Rightarrow> nat \<Rightarrow> bool" where
  "in_cset (Lit c) u = (canonicalize u = canonicalize (of_char c))"
| "in_cset Space u = is_space u"
| "in_cset (Union a b) u = (in_cset a u \<or> in_cset b u)"

text \<open>
  A matcher state is the code unit just consumed (none at the start of the input) and
  the rest of the input. \<open>rmatch r st\<close> lists the states in which a match of \<open>r\<close>
  begun at \<open>st\<close> can end; backtracking explores all of them, so \<open>test\<close> succeeds exactly
  when the list is non-empty at some start position.
\<close>

type_synonym mstate = "nat option \<times> nat list"

fun word_before :: "nat option \<Rightarrow> bool" where
  "word_before None = False"
| "word_before (Some u) = is_word u"

fun word_after :: "nat list \<Rightarrow> bool" where
  "word_after [] = False"
| "word_after (u # us) = is_word u"

fun match_str :: "string \<Rightarrow> mstate \<Rightarrow> mstate list" where
  "match_str [] st = [st]"
| "match_str (c # cs) (p, []) = []"
| "match_str (c # cs) (p, u # us) =
     (if canonicalize u = canonicalize (of_char c) then match_str cs (Some u, us) else [])"

fun spans :: "cset \<Rightarrow> mstate \<Rightarrow> mstate list" where
  "spans cs (p, []) = [(p, [])]"
| "spans cs (p, u # us) =
     (p, u # us) # (if in_cset cs u then spans cs (Some u, us) else [])"

fun rmatch :: "rx \<Rightarrow> mstate \<Rightarrow> mstate list" where
  "rmatch (Str s) st = match_str s st"
| "rmatch (Cls cs) (p, []) = []"
| "rmatch (Cls cs) (p, u # us) = (if in_cset cs u then [(Some u, us)] else [])"
| "rmatch WordB (p, us) = (if word_before p \<noteq> word_after us then [(p, us)] else [])"
| "rmatch (Seq []) st = [st]"
| "rmatch (Seq (r # rs)) st = concat (map (rmatch (Seq rs)) (rmatch r st))"
| "rmatch (Alt []) st = []"
| "rmatch (Alt (r # rs)) st = rmatch r st @ rmatch (Alt rs) st"
| "rmatch (Opt r) st = rmatch r st @ [st]"
| "rmatch (Plus cs) (p, []) = []"
| "rmatch (Plus cs) (p, u # us) = (if in_cset cs u then spans cs (Some u, us) else [])"
| "rmatch (Star cs) st = spans cs st"

fun search :: "rx \<Rightarrow> nat option \<Rightarrow> nat list \<Rightarrow> bool" where
  "search r p [] = (rmatch r (p, []) \<noteq> [])"
| "search r p (u # us) = (rmatch r (p, u # us) \<noteq> [] \<or> search r (Some u) us)"

definition test :: "rx \<Rightarrow> jsstring \<Rightarrow> bool" where
  "test pattern input = search pattern None input"

section \<open>Situation analyzer\<close>

subsection \<open>Pattern tables\<close>

definition incident_patterns :: "rx list" where
  "incident_patterns =
    [ Seq [Str ''fail'', Opt (Alt [Str ''ure'', Str ''ing'', Str ''ed''])],
      Seq [Str ''down'', WordB],
      Str ''error'',
      Str ''broken'',
      Str ''outage'',
      Str ''crash'',
      Seq [Str ''login'', Plus Space, Str ''fail''],
      Seq [Str ''not'', Plus Space, Str ''work''],
      Seq [Str ''report'', Opt (Alt [Str ''ing'', Str ''ed''])],
      Str ''issue'',
      Str ''bug'',
      Str ''500'',
      Str ''timeout'' ]"

definition overview_patterns :: "rx list" where
  "overview_patterns =
    [ Str ''overview'',
      Str ''summary'',
      Str ''today'',
      Str ''status'',
      Seq [Str ''how'', Plus Space, Alt [Str ''are'', Str ''is''], Plus Space, Str ''things''],
      Seq [Str ''high'', Cls (Union Space (Lit (CHR ''-''))), Str ''level''],
      Str ''dashboard'',
      Seq [Str ''what'', Opt (Str [CHR 0x27]), Str ''s'', Plus Space, Str ''happening''],
      Str ''general'',
      Seq [Str ''brief'', Opt (Str ''ing'')] ]"

definition investigation_patterns :: "rx list" where
  "investigation_patterns =
    [ Str ''investigat'',
      Seq [Str ''something'', Plus Space,
           Alt [Seq [Str ''feel'', Opt (Str ''s'')], Seq [Str ''seem'', Opt (Str ''s'')]]],
      Seq [WordB, Str ''off'', WordB],
      Str ''anomal'',
      Str ''suspicious'',
      Seq [Str ''dig'', Plus Space, Alt [Str ''in'', Str ''into'']],
      Seq [Str ''look'', Plus Space, Str ''into''],
      Seq [Str ''root'', Plus Space, Str ''cause''],
      Seq [WordB, Str ''why'', WordB],
      Str ''weird'',
      Str ''strange'',
      Str ''unusual'' ]"

definition escalation_patterns :: "rx list" where
  "escalation_patterns =
    [ Str ''escalat'',
      Str ''urgent'',
      Str ''critical'',
      Seq [Str ''what'', Plus Space, Str ''should'', Plus Space, Str ''I'', Plus Space,
           Str ''do''],
      Str ''action'',
      Seq [WordB, Str ''help'', WordB],
      Seq [WordB, Str ''now'', WordB],
      Str ''immediate'',
      Str ''emergency'',
      Str ''worst'',
      Seq [Str ''getting'', Plus Space, Str ''worse''],
      Str ''spreading'' ]"

definition exploration_patterns :: "rx list" where
  "exploration_patterns =
    [ Seq [Str ''show'', Plus Space, Str ''me''],
      Str ''explore'',
      Seq [Str ''tell'', Plus Space, Str ''me'', Plus Space, Str ''about''],
      Str ''details'',
      Seq [Str ''more'', Plus Space, Str ''info''],
      Str ''drill'',
      Seq [WordB, Str ''deep'', WordB],
      Seq [Str ''break'', Star Space, Str ''down''] ]"

text \<open>
  An object literal is the list of its own entries in the order they are written, which
  is the order \<open>Object.entries\<close> returns.
\<close>

definition INTENT_PATTERNS :: "(string \<times> rx list) list" where
  "INTENT_PATTERNS =
    [ (''incident'', incident_patterns),
      (''overview'', overview_patterns),
      (''investigation'', investigation_patterns),
      (''escalation'', escalation_patterns),
      (''exploration'', exploration_patterns) ]"

definition critical_signals :: "rx list" where
  "critical_signals =
    [ Str ''escalat'', Str ''emergency'', Str ''critical'', Seq [WordB, Str ''now'', WordB],
      Str ''immediate'', Str ''worst'', Str ''spreading'' ]"

definition high_signals :: "rx list" where
  "high_signals =
    [ Str ''fail'', Str ''broken'', Seq [Str ''down'', WordB], Str ''outage'',
      Str ''crash'', Str ''urgent'', Str ''reporting'' ]"

definition medium_signals :: "rx list" where
  "medium_signals =
    [ Str ''investigat'', Str ''something'', Seq [WordB, Str ''off'', WordB],
      Str ''anomal'', Str ''suspicious'', Str ''weird'' ]"

definition low_signals :: "rx list" where
  "low_signals =
    [ Str ''overview'', Str ''summary'', Str ''today'',
      Str ''general'', Str ''status'', Str ''brief'' ]"

definition URGENCY_SIGNALS :: "(string \<times> rx list) list" where
  "URGENCY_SIGNALS =
    [ (''critical'', critical_signals),
      (''high'', high_signals),
      (''medium'', medium_signals),
      (''low'', low_signals) ]"

subsection \<open>Classification functions\<close>

text \<open>
  Reading a table at a key it does not hold gives no array to iterate over, and reading
  element 0 of an empty array gives no pair to take apart: both raise a \<open>TypeError\<close>.
\<close>

datatype error = TypeError

type_synonym scores = "(string \<times> nat) list"

definition initial_scores :: scores where
  "initial_scores =
    [ (''incident'', 0), (''overview'', 0), (''investigation'', 0),
      (''escalation'', 0), (''exploration'', 0) ]"

text \<open>\<open>scores[intent] += n\<close> on a key the object holds; the entry keeps its place.\<close>

definition add_score :: "string \<Rightarrow> nat \<Rightarrow> scores \<Rightarrow> scores" where
  "add_score intent n sc = map (\<lambda>(k, v). if k = intent then (k, v + n) else (k, v)) sc"

definition count_matches :: "string \<Rightarrow> rx list \<Rightarrow> jsstring \<Rightarrow> scores \<Rightarrow> scores" where
  "count_matches intent patterns input sc =
     fold (\<lambda>pattern sc. if test pattern input then add_score intent 1 sc else sc) patterns sc"

definition score_all :: "jsstring \<Rightarrow> scores" where
  "score_all input =
     fold (\<lambda>(intent, patterns) sc. count_matches intent patterns input sc)
       INTENT_PATTERNS initial_scores"

text \<open>
  \<open>Array.prototype.sort\<close> is stable; under the comparator \<open>(a, b) => b - a\<close> on the
  scores it is the stable sort by descending score.
\<close>

definition classifyIntent :: "jsstring \<Rightarrow> error + string" where
  "classifyIntent input =
     (let sorted = sort_key (\<lambda>(k, v). - int v) (score_all input)
      in case sorted of
           [] \<Rightarrow> Inl TypeError
         | (k, v) # _ \<Rightarrow> Inr (if v > 0 then k else ''exploration''))"

fun any_match :: "rx list \<Rightarrow> jsstring \<Rightarrow> bool" where
  "any_match [] input = False"
| "any_match (pattern # rest) input = (if test pattern input then True else any_match rest input)"

fun scan_levels :: "string list \<Rightarrow> jsstring \<Rightarrow> error + string" where
  "scan_levels [] input = Inr ''low''"
| "scan_levels (level # rest) input =
     (case map_of URGENCY_SIGNALS level of
        None \<Rightarrow> Inl TypeError
      | Some patterns \<Rightarrow>
          if any_match patterns input then Inr level else scan_levels rest input)"

definition classifyUrgency :: "jsstring \<Rightarrow> error + string" where
  "classifyUrgency input = scan_levels [''critical'', ''high'', ''medium'', ''low''] input"

definition calculateConfidence :: "string \<Rightarrow> jsstring \<Rightarrow> error + number" where
  "calculateConfidence intent input =
     (case map_of INTENT_PATTERNS intent of
        None \<Rightarrow> Inl TypeError
      | Some patterns \<Rightarrow>
          let matchCount = fold (\<lambda>pattern n. if test pattern input then n + 1 else n) patterns (0::nat);
              baseConfidence =
                (if intent = ''investigation'' then 45 / 100
                 else if intent = ''exploration'' then 6 / 10 else 7 / 10);
              bonus = min (of_nat matchCount * (8 / 100)) (25 / 100)
          in Inr (min (baseConfidence + bonus) (95 / 100)))"

text \<open>
  The analysis result; its \<open>keywords\<close> field, which nothing reads afterwards and whose
  computation cannot fail, is left out.
\<close>

record AnalysisResult =
  intent :: string
  urgency :: string
  confidence :: number

definition analyze :: "jsstring \<Rightarrow> error + AnalysisResult" where
  "analyze input =
     (case classifyIntent input of
        Inl e \<Rightarrow> Inl e
      | Inr i \<Rightarrow>
         (case classifyUrgency input of
            Inl e \<Rightarrow> Inl e
          | Inr u \<Rightarrow>
             (case calculateConfidence i input of
                Inl e \<Rightarrow> Inl e
              | Inr c \<Rightarrow> Inr \<lparr> intent = i, urgency = u, confidence = c \<rparr>)))"


section \<open>Schema\<close>

text \<open>
  The contract between analysis and rendering. The code provides for layout, component
  type and intent values outside the declared unions (a \<open>??\<close> fallback, a \<open>default\<close>
  branch), so these three stay the strings they are at run time. \<open>props\<close> is passed
  through uninterpreted and is a type parameter. The free-text fields (\<open>explanation\<close>,
  \<open>uncertaintyAreas\<close>, the \<open>reason\<close> of a hidden component), which are fixed per
  template and read by nothing modelled here, are left out.
\<close>

datatype VisibilityState = visible | hidden | conditional

record 'p UIComponentSpec =
  cid :: string
  ctype :: string
  props :: 'p
  priority :: number
  visibility :: VisibilityState
  visibilityCondition :: "string option"

record AIReasoning =
  intent :: string
  urgency :: string
  hiddenComponents :: "string list"

record 'p UISchema =
  layout :: string
  components :: "'p UIComponentSpec list"
  confidence :: number
  reasoning :: AIReasoning

section \<open>Response library\<close>

text \<open>
  Each generator returns its pre-composed schema. The illustrative payload of a component
  is the parameter \<open>mock\<close>, read at the template's intent and the component's id.
\<close>

definition incidentResponse :: "(string \<Rightarrow> string \<Rightarrow> 'p) \<Rightarrow> number \<Rightarrow> 'p UISchema" where
  "incidentResponse mock c =
    \<lparr> layout = ''grid'',
      components =
        [ \<lparr> cid = ''banner-1'', ctype = ''StatusBanner'', props = mock ''incident'' ''banner-1'',
            priority = 1, visibility = visible, visibilityCondition = None \<rparr>,
          \<lparr> cid = ''alert-1'', ctype = ''AlertPanel'', props = mock ''incident'' ''alert-1'',
            priority = 2, visibility = visible, visibilityCondition = None \<rparr>,
          \<lparr> cid = ''metric-1'', ctype = ''MetricCard'', props = mock ''incident'' ''metric-1'',
            priority = 3, visibility = visible, visibilityCondition = None \<rparr>,
          \<lparr> cid = ''metric-2'', ctype = ''MetricCard'', props = mock ''incident'' ''metric-2'',
            priority = 3, visibility = visible, visibilityCondition = None \<rparr>,
          \<lparr> cid = ''metric-3'', ctype = ''MetricCard'', props = mock ''incident'' ''metric-3'',
            priority = 4, visibility = visible, visibilityCondition = None \<rparr>,
          \<lparr> cid = ''metric-4'', ctype = ''MetricCard'', props = mock ''incident'' ''metric-4'',
            priority = 4, visibility = visible, visibilityCondition = None \<rparr>,
          \<lparr> cid = ''timeline-1'', ctype = ''TimelineView'', props = mock ''incident'' ''timeline-1'',
            priority = 5, visibility = visible, visibilityCondition = None \<rparr>,
          \<lparr> cid = ''logs-1'', ctype = ''LogViewer'', props = mock ''incident'' ''logs-1'',
            priority = 6, visibility = visible, visibilityCondition = None \<rparr>,
          \<lparr> cid = ''actions-1'', ctype = ''ActionChecklist'', props = mock ''incident'' ''actions-1'',
            priority = 7, visibility = visible, visibilityCondition = None \<rparr>,
          \<lparr> cid = ''recs-1'', ctype = ''RecommendationStrip'', props = mock ''incident'' ''recs-1'',
            priority = 8, visibility = visible, visibilityCondition = None \<rparr> ],
      confidence = c,
      reasoning =
        \<lparr> intent = ''incident'', urgency = ''high'',
          hiddenComponents = [''GeoMap'', ''InsightSummary''] \<rparr> \<rparr>"

definition overviewResponse :: "(string \<Rightarrow> string \<Rightarrow> 'p) \<Rightarrow> number \<Rightarrow> 'p UISchema" where
  "overviewResponse mock c =
    \<lparr> layout = ''grid'',
      components =
        [ \<lparr> cid = ''banner-1'', ctype = ''StatusBanner'', props = mock ''overview'' ''banner-1'',
            priority = 1, visibility = visible, visibilityCondition = None \<rparr>,
          \<lparr> cid = ''metric-1'', ctype = ''MetricCard'', props = mock ''overview'' ''metric-1'',
            priority = 2, visibility = visible, visibilityCondition = None \<rparr>,
          \<lparr> cid = ''metric-2'', ctype = ''MetricCard'', props = mock ''overview'' ''metric-2'',
            priority = 2, visibility = visible, visibilityCondition = None \<rparr>,
          \<lparr> cid = ''metric-3'', ctype = ''MetricCard'', props = mock ''overview'' ''metric-3'',
            priority = 2, visibility = visible, visibilityCondition = None \<rparr>,
          \<lparr> cid = ''metric-4'', ctype = ''MetricCard'', props = mock ''overview'' ''metric-4'',
            priority = 2, visibility = visible, visibilityCondition = None \<rparr>,
          \<lparr> cid = ''chart-1'', ctype = ''ChartView'', props = mock ''overview'' ''chart-1'',
            priority = 3, visibility = visible, visibilityCondition = None \<rparr>,
          \<lparr> cid = ''chart-2'', ctype = ''ChartView'', props = mock ''overview'' ''chart-2'',
            priority = 4, visibility = visible, visibilityCondition = None \<rparr>,
          \<lparr> cid = ''insights-1'', ctype = ''InsightSummary'', props = mock ''overview'' ''insights-1'',
            priority = 5, visibility = visible, visibilityCondition = None \<rparr>,
          \<lparr> cid = ''recs-1'', ctype = ''RecommendationStrip'', props = mock ''overview'' ''recs-1'',
            priority = 6, visibility = visible, visibilityCondition = None \<rparr> ],
      confidence = c,
      reasoning =
        \<lparr> intent = ''overview'', urgency = ''low'',
          hiddenComponents = [''AlertPanel'', ''LogViewer'', ''ActionChecklist'', ''GeoMap''] \<rparr> \<rparr>"

definition investigationResponse :: "(string \<Rightarrow> string \<Rightarrow> 'p) \<Rightarrow> number \<Rightarrow> 'p UISchema" where
  "investigationResponse mock c =
    \<lparr> layout = ''split'',
      components =
        [ \<lparr> cid = ''banner-1'', ctype = ''StatusBanner'', props = mock ''investigation'' ''banner-1'',
            priority = 1, visibility = visible, visibilityCondition = None \<rparr>,
          \<lparr> cid = ''insights-1'', ctype = ''InsightSummary'', props = mock ''investigation'' ''insights-1'',
            priority = 2, visibility = visible, visibilityCondition = None \<rparr>,
          \<lparr> cid = ''chart-1'', ctype = ''ChartView'', props = mock ''investigation'' ''chart-1'',
            priority = 3, visibility = visible, visibilityCondition = None \<rparr>,
          \<lparr> cid = ''timeline-1'', ctype = ''TimelineView'', props = mock ''investigation'' ''timeline-1'',
            priority = 4, visibility = visible, visibilityCondition = None \<rparr>,
          \<lparr> cid = ''logs-1'', ctype = ''LogViewer'', props = mock ''investigation'' ''logs-1'',
            priority = 5, visibility = visible, visibilityCondition = None \<rparr>,
          \<lparr> cid = ''geo-1'', ctype = ''GeoMap'', props = mock ''investigation'' ''geo-1'',
            priority = 6, visibility = visible, visibilityCondition = None \<rparr> ],
      confidence = min c (54 / 100),
      reasoning =
        \<lparr> intent = ''investigation'', urgency = ''medium'',
          hiddenComponents = [''ActionChecklist'', ''RecommendationStrip'', ''AlertPanel''] \<rparr> \<rparr>"

definition escalationResponse :: "(string \<Rightarrow> string \<Rightarrow> 'p) \<Rightarrow> number \<Rightarrow> 'p UISchema" where
  "escalationResponse mock c =
    \<lparr> layout = ''stack'',
      components =
        [ \<lparr> cid = ''banner-1'', ctype = ''StatusBanner'', props = mock ''escalation'' ''banner-1'',
            priority = 1, visibility = visible, visibilityCondition = None \<rparr>,
          \<lparr> cid = ''alert-1'', ctype = ''AlertPanel'', props = mock ''escalation'' ''alert-1'',
            priority = 2, visibility = visible, visibilityCondition = None \<rparr>,
          \<lparr> cid = ''actions-1'', ctype = ''ActionChecklist'', props = mock ''escalation'' ''actions-1'',
            priority = 3, visibility = visible, visibilityCondition = None \<rparr>,
          \<lparr> cid = ''metric-1'', ctype = ''MetricCard'', props = mock ''escalation'' ''metric-1'',
            priority = 4, visibility = visible, visibilityCondition = None \<rparr>,
          \<lparr> cid = ''metric-2'', ctype = ''MetricCard'', props = mock ''escalation'' ''metric-2'',
            priority = 4, visibility = visible, visibilityCondition = None \<rparr>,
          \<lparr> cid = ''metric-3'', ctype = ''MetricCard'', props = mock ''escalation'' ''metric-3'',
            priority = 4, visibility = visible, visibilityCondition = None \<rparr>,
          \<lparr> cid = ''metric-4'', ctype = ''MetricCard'', props = mock ''escalation'' ''metric-4'',
            priority = 4, visibility = visible, visibilityCondition = None \<rparr>,
          \<lparr> cid = ''recs-1'', ctype = ''RecommendationStrip'', props = mock ''escalation'' ''recs-1'',
            priority = 5, visibility = visible, visibilityCondition = None \<rparr>,
          \<lparr> cid = ''timeline-1'', ctype = ''TimelineView'', props = mock ''escalation'' ''timeline-1'',
            priority = 6, visibility = visible, visibilityCondition = None \<rparr> ],
      confidence = c,
      reasoning =
        \<lparr> intent = ''escalation'', urgency = ''critical'',
          hiddenComponents = [''GeoMap'', ''LogViewer'', ''ChartView''] \<rparr> \<rparr>"

definition explorationResponse :: "(string \<Rightarrow> string \<Rightarrow> 'p) \<Rightarrow> number \<Rightarrow> 'p UISchema" where
  "explorationResponse mock c =
    \<lparr> layout = ''grid'',
      components =
        [ \<lparr> cid = ''banner-1'', ctype = ''StatusBanner'', props = mock ''exploration'' ''banner-1'',
            priority = 1, visibility = visible, visibilityCondition = None \<rparr>,
          \<lparr> cid = ''metric-1'', ctype = ''MetricCard'', props = mock ''exploration'' ''metric-1'',
            priority = 2, visibility = visible, visibilityCondition = None \<rparr>,
          \<lparr> cid = ''metric-2'', ctype = ''MetricCard'', props = mock ''exploration'' ''metric-2'',
            priority = 2, visibility = visible, visibilityCondition = None \<rparr>,
          \<lparr> cid = ''metric-3'', ctype = ''MetricCard'', props = mock ''exploration'' ''metric-3'',
            priority = 2, visibility = visible, visibilityCondition = None \<rparr>,
          \<lparr> cid = ''metric-4'', ctype = ''MetricCard'', props = mock ''exploration'' ''metric-4'',
            priority = 2, visibility = visible, visibilityCondition = None \<rparr>,
          \<lparr> cid = ''chart-1'', ctype = ''ChartView'', props = mock ''exploration'' ''chart-1'',
            priority = 3, visibility = visible, visibilityCondition = None \<rparr>,
          \<lparr> cid = ''insights-1'', ctype = ''InsightSummary'', props = mock ''exploration'' ''insights-1'',
            priority = 4, visibility = visible, visibilityCondition = None \<rparr>,
          \<lparr> cid = ''geo-1'', ctype = ''GeoMap'', props = mock ''exploration'' ''geo-1'',
            priority = 5, visibility = visible, visibilityCondition = None \<rparr> ],
      confidence = min c (65 / 100),
      reasoning =
        \<lparr> intent = ''exploration'', urgency = ''low'',
          hiddenComponents = [''ActionChecklist'', ''AlertPanel''] \<rparr> \<rparr>"


text \<open>The \<open>switch\<close> compares with \<open>===\<close>; \<open>exploration\<close> shares the \<open>default\<close> branch.\<close>

definition getResponseForIntent ::
  "(string \<Rightarrow> string \<Rightarrow> 'p) \<Rightarrow> string \<Rightarrow> string \<Rightarrow> number \<Rightarrow> 'p UISchema" where
  "getResponseForIntent mock i u c =
     (if i = ''incident'' then incidentResponse mock c
      else if i = ''overview'' then overviewResponse mock c
      else if i = ''investigation'' then investigationResponse mock c
      else if i = ''escalation'' then escalationResponse mock c
      else explorationResponse mock c)"

text \<open>
  The public entry point; the simulated latency before the analysis has no effect on the
  value returned.
\<close>

definition analyzeSituation ::
  "(string \<Rightarrow> string \<Rightarrow> 'p) \<Rightarrow> jsstring \<Rightarrow> error + 'p UISchema" where
  "analyzeSituation mock input =
     (case analyze input of
        Inl e \<Rightarrow> Inl e
      | Inr analysis \<Rightarrow>
          Inr (getResponseForIntent mock
                 (AnalysisResult.intent analysis)
                 (AnalysisResult.urgency analysis)
                 (AnalysisResult.confidence analysis)))"

section \<open>Component registry\<close>

text \<open>
  An object written as a literal inherits from \<open>Object.prototype\<close>: a computed read
  \<open>obj[k]\<close> that finds no own property \<open>k\<close> goes on to the prototype, and only when the
  name is not there either is the result \<open>undefined\<close>. The names below are the members
  of \<open>Object.prototype\<close>; each is a function or an object, so none is nullish or falsy.
\<close>

definition object_prototype_keys :: "string list" where
  "object_prototype_keys =
    [ ''constructor'', ''__defineGetter__'', ''__defineSetter__'', ''hasOwnProperty'',
      ''__lookupGetter__'', ''__lookupSetter__'', ''isPrototypeOf'',
      ''propertyIsEnumerable'', ''toString'', ''valueOf'', ''__proto__'',
      ''toLocaleString'' ]"

datatype 'a property = Own 'a | Inherited string

definition get_prop :: "(string \<times> 'a) list \<Rightarrow> string \<Rightarrow> 'a property option" where
  "get_prop obj k =
     (case map_of obj k of
        Some v \<Rightarrow> Some (Own v)
      | None \<Rightarrow> if k \<in> set object_prototype_keys then Some (Inherited k) else None)"

datatype react_component =
    MetricCard | AlertPanel | TimelineView | LogViewer | ChartView
  | ActionChecklist | InsightSummary | RecommendationStrip | GeoMap | StatusBanner

definition componentRegistry :: "(string \<times> react_component) list" where
  "componentRegistry =
    [ (''MetricCard'', MetricCard),
      (''AlertPanel'', AlertPanel),
      (''TimelineView'', TimelineView),
      (''LogViewer'', LogViewer),
      (''ChartView'', ChartView),
      (''ActionChecklist'', ActionChecklist),
      (''InsightSummary'', InsightSummary),
      (''RecommendationStrip'', RecommendationStrip),
      (''GeoMap'', GeoMap),
      (''StatusBanner'', StatusBanner) ]"

definition resolveComponent :: "string \<Rightarrow> react_component property option" where
  "resolveComponent t =
     (case get_prop componentRegistry t of Some found \<Rightarrow> Some found | None \<Rightarrow> None)"

definition getRegisteredTypes :: "string list" where
  "getRegisteredTypes = map fst componentRegistry"

section \<open>Layout strategies\<close>

text \<open>
  A placement cell: the \<open>div\<close> a layout emits for one entry, with its key, its width
  class, whether it carries the overlay class, its animation delay in milliseconds, and
  the element it wraps (the resolved component applied to the entry's props).
\<close>

datatype cell_width = full | half | quarter

record 'p cell =
  key :: string
  width :: cell_width
  floating :: bool
  animationDelay :: number
  child_type :: "react_component property"
  child_props :: "'p"

datatype 'p arrangement =
    GridPlan "'p cell list"
  | StackPlan "'p cell list"
  | SplitPlan "'p cell list" "'p cell list"
  | OverlayPlan "'p cell list" "'p cell list option"

text \<open>
  What the callback of \<open>map\<close> returns for one entry: \<open>null\<close> when the component does
  not resolve, the cell otherwise. React renders nothing for \<open>null\<close>.
\<close>

definition render_entry ::
  "('p UIComponentSpec \<Rightarrow> cell_width) \<Rightarrow> bool \<Rightarrow> 'p UIComponentSpec \<Rightarrow> 'p cell option" where
  "render_entry cls fl spec =
     (case resolveComponent (ctype spec) of
        None \<Rightarrow> None
      | Some Component \<Rightarrow>
          Some \<lparr> key = cid spec, width = cls spec, floating = fl,
                 animationDelay = priority spec * 60,
                 child_type = Component, child_props = props spec \<rparr>)"

definition render_all ::
  "('p UIComponentSpec \<Rightarrow> cell_width) \<Rightarrow> bool \<Rightarrow> 'p UIComponentSpec list \<Rightarrow> 'p cell list" where
  "render_all cls fl specs = List.map_filter (render_entry cls fl) specs"

definition GridLayout :: "'p UIComponentSpec list \<Rightarrow> 'p arrangement" where
  "GridLayout specs =
     GridPlan
       (render_all
          (\<lambda>spec. let isFullWidth =
                        (ctype spec = ''StatusBanner'' \<or> ctype spec = ''RecommendationStrip'');
                      isCompact = (ctype spec = ''MetricCard'')
                  in if isFullWidth then full else if isCompact then quarter else half)
          False specs)"

definition StackLayout :: "'p UIComponentSpec list \<Rightarrow> 'p arrangement" where
  "StackLayout specs = StackPlan (render_all (\<lambda>spec. full) False specs)"

definition SplitLayout :: "'p UIComponentSpec list \<Rightarrow> 'p arrangement" where
  "SplitLayout specs =
     (let mid = (length specs + 1) div 2;
          left = take mid specs;
          right = drop mid specs;
          renderColumn =
            render_all
              (\<lambda>spec. let isFullWidth =
                            (ctype spec = ''StatusBanner'' \<or> ctype spec = ''RecommendationStrip'')
                      in if isFullWidth then full else full)
              False
      in SplitPlan (renderColumn left) (renderColumn right))"

definition OverlayLayout :: "'p UIComponentSpec list \<Rightarrow> 'p arrangement" where
  "OverlayLayout specs =
     (let overlays = filter (\<lambda>c. priority c \<le> 2) specs;
          base = filter (\<lambda>c. priority c > 2) specs
      in OverlayPlan
           (render_all (\<lambda>spec. half) False base)
           (if length overlays > 0 then Some (render_all (\<lambda>spec. full) True overlays)
            else None))"

section \<open>Composition engine\<close>

definition layoutMap :: "(string \<times> ('p UIComponentSpec list \<Rightarrow> 'p arrangement)) list" where
  "layoutMap =
    [ (''grid'', GridLayout),
      (''stack'', StackLayout),
      (''split'', SplitLayout),
      (''overlay'', OverlayLayout) ]"

text \<open>
  The element the composition returns: the confidence strip (bar width in percent, bar
  colour, rounded label) and the layout element. When the value read from \<open>layoutMap\<close>
  is a member of \<open>Object.prototype\<close> the element's type is not a layout of this
  program, and no strategy is applied.
\<close>

datatype 'p layout_element = Arranged "'p arrangement" | NotALayout string

record 'p composition =
  data_layout :: string
  bar_width :: number
  bar_color :: string
  label_percent :: int
  body :: "'p layout_element"

definition SentinelComposition :: "'p UISchema \<Rightarrow> 'p composition" where
  "SentinelComposition schema =
     (let visibleComponents = filter (\<lambda>c. visibility c = visible) (components schema);
          sorted = sort_key priority visibleComponents;
          LayoutComponent =
            (case get_prop layoutMap (layout schema) of
               Some found \<Rightarrow> found
             | None \<Rightarrow> Own GridLayout);
          confidenceColor =
            (if confidence schema \<ge> 8 / 10 then ''var(--color-accent-green)''
             else if confidence schema \<ge> 5 / 10 then ''var(--color-accent-amber)''
             else ''var(--color-accent-red)'')
      in \<lparr> data_layout = layout schema,
           bar_width = confidence schema * 100,
           bar_color = confidenceColor,
           label_percent = \<lfloor>confidence schema * 100 + 1 / 2\<rfloor>,
           body = (case LayoutComponent of
                     Own Layout \<Rightarrow> Arranged (Layout sorted)
                   | Inherited k \<Rightarrow> NotALayout k) \<rparr>)"


section \<open>The specification's reading of the analyzer\<close>

text \<open>
  The definitions of this section follow the words of the specification, to be compared
  with the functions above. The score of a category is the number of its patterns that
  match the input; the intent is \<open>exploration\<close> when the highest score is 0 and
  otherwise the first category, in declaration order, that reaches the highest score.
\<close>

definition patterns_of :: "string \<Rightarrow> rx list" where
  "patterns_of i = (case map_of INTENT_PATTERNS i of Some ps \<Rightarrow> ps | None \<Rightarrow> [])"

definition score :: "jsstring \<Rightarrow> string \<Rightarrow> nat" where
  "score input i = length (filter (\<lambda>p. test p input) (patterns_of i))"

definition declaration_order :: "string list" where
  "declaration_order =
     [''incident'', ''overview'', ''investigation'', ''escalation'', ''exploration'']"

definition max_score :: "jsstring \<Rightarrow> nat" where
  "max_score input = fold max (map (score input) declaration_order) 0"

definition spec_classifyIntent :: "jsstring \<Rightarrow> string" where
  "spec_classifyIntent input =
     (if max_score input = 0 then ''exploration''
      else case find (\<lambda>i. score input i = max_score input) declaration_order of
             Some i \<Rightarrow> i
           | None \<Rightarrow> ''exploration'')"

text \<open>
  Urgency is the first level, in the order critical, high, medium, low, one of whose
  patterns matches, and \<open>low\<close> when there is none.
\<close>

definition signals_of :: "string \<Rightarrow> rx list" where
  "signals_of level = (case map_of URGENCY_SIGNALS level of Some ps \<Rightarrow> ps | None \<Rightarrow> [])"

definition spec_classifyUrgency :: "jsstring \<Rightarrow> string" where
  "spec_classifyUrgency input =
     (case find (\<lambda>level. list_ex (\<lambda>p. test p input) (signals_of level))
             [''critical'', ''high'', ''medium'', ''low''] of
        Some level \<Rightarrow> level
      | None \<Rightarrow> ''low'')"

text \<open>Base confidence per intent, and the confidence formula on the match count.\<close>

definition base_confidence :: "string \<Rightarrow> number" where
  "base_confidence i =
     (if i = ''investigation'' then 45 / 100
      else if i = ''exploration'' then 60 / 100 else 70 / 100)"

definition spec_confidence :: "jsstring \<Rightarrow> string \<Rightarrow> number" where
  "spec_confidence input i =
     min (base_confidence i + min (of_nat (score input i) * (8 / 100)) (25 / 100)) (95 / 100)"

text \<open>The head of a stable ascending sort: the first element whose key is least.\<close>

fun first_min :: "('a \<Rightarrow> 'k::linorder) \<Rightarrow> 'a \<Rightarrow> 'a list \<Rightarrow> 'a" where
  "first_min f x [] = x"
| "first_min f x (y # ys) = (let m = first_min f y ys in if f x \<le> f m then x else m)"

section \<open>The specification's reading of the composition\<close>

text \<open>
  The four layout names and the five intent names the specification recognizes.
\<close>

definition recognized_layouts :: "string list" where
  "recognized_layouts = [''grid'', ''stack'', ''split'', ''overlay'']"

definition known_intents :: "string list" where
  "known_intents =
     [''incident'', ''overview'', ''investigation'', ''escalation'', ''exploration'']"

text \<open>
  The layers of an overlay arrangement, and the cells of any arrangement in reading
  order (left column before right, overlay layer before base layer).
\<close>

fun overlay_layer :: "'p arrangement \<Rightarrow> 'p cell list" where
  "overlay_layer (OverlayPlan bs (Some os)) = os"
| "overlay_layer _ = []"

fun base_layer :: "'p arrangement \<Rightarrow> 'p cell list" where
  "base_layer (OverlayPlan bs os) = bs"
| "base_layer _ = []"

fun placed :: "'p arrangement \<Rightarrow> 'p cell list" where
  "placed (GridPlan cells) = cells"
| "placed (StackPlan cells) = cells"
| "placed (SplitPlan left right) = left @ right"
| "placed (OverlayPlan bs os) = overlay_layer (OverlayPlan bs os) @ bs"

text \<open>
  An entry is resolvable when \<open>resolveComponent\<close> returns a component for its type;
  a cell renders an entry when it carries the entry's id, delay, props and resolved
  component. \<open>prioritized\<close> is the list every layout receives: the visible entries in
  stable ascending order of priority.
\<close>

definition resolvable :: "'p UIComponentSpec \<Rightarrow> bool" where
  "resolvable e \<longleftrightarrow> resolveComponent (ctype e) \<noteq> None"


definition prioritized :: "'p UISchema \<Rightarrow> 'p UIComponentSpec list" where
  "prioritized s = sort_key priority (filter (\<lambda>c. visibility c = visible) (components s))"


subsection \<open>Concrete documents\<close>

definition no_reasoning :: AIReasoning where
  "no_reasoning = \<lparr> intent = ''exploration'', urgency = ''low'', hiddenComponents = [] \<rparr>"

definition stray_type_doc :: "unit UISchema" where
  "stray_type_doc =
     \<lparr> layout = ''grid'',
       components =
         [ \<lparr> cid = ''panel-1'', ctype = ''toString'', props = (), priority = 1,
             visibility = visible, visibilityCondition = None \<rparr> ],
       confidence = 9 / 10,
       reasoning = no_reasoning \<rparr>"

definition stray_layout_doc :: "unit UISchema" where
  "stray_layout_doc =
     \<lparr> layout = ''constructor'',
       components =
         [ \<lparr> cid = ''banner-1'', ctype = ''StatusBanner'', props = (), priority = 1,
             visibility = visible, visibilityCondition = None \<rparr> ],
       confidence = 9 / 10,
       reasoning = no_reasoning \<rparr>"




section \<open>The analyzer meets its specification\<close>

lemma add_score_add: "add_score k m (add_score k n sc) = add_score k (n + m) sc"
  by (induction sc) (auto simp: add_score_def)

lemma add_score_0: "add_score k 0 sc = sc"
  by (induction sc) (auto simp: add_score_def)

lemma count_matches_eq:
  "count_matches k ps input sc = add_score k (length (filter (\<lambda>p. test p input) ps)) sc"
proof (induction ps arbitrary: sc)
  case Nil
  then show ?case by (simp add: count_matches_def add_score_0)
next
  case (Cons p ps)
  then show ?case by (simp add: count_matches_def add_score_add)
qed

lemma score_all_eq:
  "score_all input =
     [ (''incident'', score input ''incident''), (''overview'', score input ''overview''),
       (''investigation'', score input ''investigation''),
       (''escalation'', score input ''escalation''),
       (''exploration'', score input ''exploration'') ]"
  by (simp add: score_all_def INTENT_PATTERNS_def initial_scores_def count_matches_eq
      add_score_def score_def patterns_of_def)

lemma hd_insort_key:
  "hd (insort_key f x ys) = (if ys = [] \<or> f x \<le> f (hd ys) then x else hd ys)"
  by (cases ys) auto

lemma sort_key_nonempty: "sort_key f (x # xs) \<noteq> []"
  by (metis length_sort list.distinct(1) list.size(3) length_0_conv)

lemma hd_sort_key: "hd (sort_key f (x # xs)) = first_min f x xs"
proof (induction xs arbitrary: x)
  case Nil
  then show ?case by simp
next
  case (Cons y ys)
  have "sort_key f (x # y # ys) = insort_key f x (sort_key f (y # ys))" by simp
  then show ?case
    using Cons[of y] sort_key_nonempty[of f y ys]
    by (simp add: hd_insort_key Let_def del: sort_key_simps)
qed

lemma first_min_scores:
  fixes g :: "string \<Rightarrow> nat"
  assumes "first_min (\<lambda>(k, v). - int v) (k0, g k0) (map (\<lambda>k. (k, g k)) ks) = (k, v)"
  shows "v = g k \<and> (\<forall>i \<in> set (k0 # ks). g i \<le> v) \<and> find (\<lambda>i. g i = v) (k0 # ks) = Some k"
  using assms
proof (induction ks arbitrary: k0 k v)
  case Nil
  then show ?case by auto
next
  case (Cons a ks)
  obtain k' v' where m:
    "first_min (\<lambda>(k, v). - int v) (a, g a) (map (\<lambda>k. (k, g k)) ks) = (k', v')"
    by (cases "first_min (\<lambda>(k, v). - int v) (a, g a) (map (\<lambda>k. (k, g k)) ks)") auto
  from Cons.IH[OF m] have ih: "v' = g k'" "\<forall>i \<in> set (a # ks). g i \<le> v'"
    "find (\<lambda>i. g i = v') (a # ks) = Some k'" by auto
  show ?case
  proof (cases "v' \<le> g k0")
    case True
    with Cons.prems m have "k = k0" "v = g k0" by (auto simp: Let_def)
    with ih True show ?thesis by auto
  next
    case False
    with Cons.prems m have kv: "k = k'" "v = v'" by (auto simp: Let_def)
    from False have "g k0 \<noteq> v'" "g k0 \<le> v'" by auto
    with ih kv show ?thesis by auto
  qed
qed

lemma fold_max_upper:
  fixes a :: nat
  assumes "\<forall>x \<in> set xs. x \<le> v" "v \<in> set xs \<or> v = a" "a \<le> v"
  shows "fold max xs a = v"
proof -
  have "fold max xs a = Max (set (a # xs))" by (rule Max.set_eq_fold[symmetric])
  also have "\<dots> = v" using assms by (intro Max_eqI) auto
  finally show ?thesis .
qed

lemma classifyIntent_eq: "classifyIntent input = Inr (spec_classifyIntent input)"
proof -
  let ?f = "\<lambda>(k::string, v::nat). - int v"
  let ?g = "score input"
  let ?ks = "[''overview'', ''investigation'', ''escalation'', ''exploration'']"
  have sc: "score_all input = (''incident'', ?g ''incident'') # map (\<lambda>k. (k, ?g k)) ?ks"
    by (simp add: score_all_eq)
  obtain k v where kv:
    "first_min ?f (''incident'', ?g ''incident'') (map (\<lambda>k. (k, ?g k)) ?ks) = (k, v)"
    by (cases "first_min ?f (''incident'', ?g ''incident'') (map (\<lambda>k. (k, ?g k)) ?ks)") auto
  have hd: "hd (sort_key ?f (score_all input)) = (k, v)"
    unfolding sc hd_sort_key kv ..
  have ne: "sort_key ?f (score_all input) \<noteq> []"
    unfolding sc by (rule sort_key_nonempty)
  then obtain rest where s: "sort_key ?f (score_all input) = (k, v) # rest"
    using hd by (cases "sort_key ?f (score_all input)") auto
  have ord: "declaration_order = ''incident'' # ?ks"
    by (simp add: declaration_order_def)
  have fm: "v = ?g k \<and> (\<forall>i \<in> set declaration_order. ?g i \<le> v)
      \<and> find (\<lambda>i. ?g i = v) declaration_order = Some k"
    unfolding ord by (rule first_min_scores[OF kv])
  then have v: "v = ?g k" and up: "\<forall>i \<in> set declaration_order. ?g i \<le> v"
    and fnd: "find (\<lambda>i. ?g i = v) declaration_order = Some k"
    by blast+
  from fnd have "k \<in> set declaration_order"
    by (auto simp: find_Some_iff)
  then have "max_score input = v"
    unfolding max_score_def using up v by (intro fold_max_upper) auto
  then have "(if v > 0 then k else ''exploration'') = spec_classifyIntent input"
    using fnd by (simp add: spec_classifyIntent_def)
  then show ?thesis
    by (simp add: classifyIntent_def s)
qed

text \<open>
  Claim C1. For every input string, \<open>classifyIntent\<close> returns, without raising, the
  intent the specification describes: each of the five categories scores the number of
  its patterns that match; the first category in declaration order that reaches the
  highest score is returned; and when the highest score is 0 the result is
  \<open>exploration\<close>.
\<close>

theorem classifyIntent_by_score:
  "classifyIntent input = Inr (spec_classifyIntent input)"
  by (rule classifyIntent_eq)

lemma any_match_list_ex: "any_match ps input = list_ex (\<lambda>p. test p input) ps"
  by (induction ps) auto

lemma classifyUrgency_eq: "classifyUrgency input = Inr (spec_classifyUrgency input)"
  by (simp add: classifyUrgency_def spec_classifyUrgency_def signals_of_def
      URGENCY_SIGNALS_def any_match_list_ex)

text \<open>
  Claim C2. For every input string, \<open>classifyUrgency\<close> returns, without raising, the
  first level in the order critical, high, medium, low that has a matching pattern, and
  \<open>low\<close> when no pattern of any level matches.
\<close>

theorem classifyUrgency_first_match:
  "classifyUrgency input = Inr (spec_classifyUrgency input)"
  by (rule classifyUrgency_eq)

lemma fold_count:
  "fold (\<lambda>p n. if test p input then n + 1 else n) ps (k::nat)
     = k + length (filter (\<lambda>p. test p input) ps)"
  by (induction ps arbitrary: k) auto

lemma spec_classifyIntent_known: "spec_classifyIntent input \<in> set declaration_order"
  by (auto simp: spec_classifyIntent_def declaration_order_def find_Some_iff
      split: option.splits)

lemma map_of_known:
  "i \<in> set declaration_order \<Longrightarrow> map_of INTENT_PATTERNS i = Some (patterns_of i)"
  by (auto simp: declaration_order_def patterns_of_def INTENT_PATTERNS_def)

lemma calculateConfidence_known:
  assumes "i \<in> set declaration_order"
  shows "calculateConfidence i input = Inr (spec_confidence input i)"
  using map_of_known[OF assms]
  by (simp add: calculateConfidence_def fold_count spec_confidence_def base_confidence_def
      score_def Let_def)

lemma spec_confidence_bounds:
  "45 / 100 \<le> spec_confidence input i" "spec_confidence input i \<le> 95 / 100"
  by (simp_all add: spec_confidence_def base_confidence_def min_def)

lemma analyze_eq:
  "analyze input =
     Inr \<lparr> AnalysisResult.intent = spec_classifyIntent input,
           AnalysisResult.urgency = spec_classifyUrgency input,
           AnalysisResult.confidence = spec_confidence input (spec_classifyIntent input) \<rparr>"
  by (simp add: analyze_def classifyIntent_eq classifyUrgency_eq
      calculateConfidence_known[OF spec_classifyIntent_known])


section \<open>The response library\<close>

lemma response_confidence:
  "confidence (getResponseForIntent mock i u c) =
     (if i = ''incident'' \<or> i = ''overview'' \<or> i = ''escalation'' then c
      else if i = ''investigation'' then min c (54 / 100) else min c (65 / 100))"
  by (simp add: getResponseForIntent_def investigationResponse_def explorationResponse_def
      incidentResponse_def overviewResponse_def escalationResponse_def)

text \<open>
  Claim C4. For every incoming confidence \<open>c\<close>, the document produced holds
  \<open>min c 0.54\<close> for investigation, \<open>min c 0.65\<close> for exploration, and \<open>c\<close> unchanged
  for incident, overview and escalation.
\<close>

theorem synthesizer_clamp:
  "confidence (getResponseForIntent mock ''investigation'' u c) = min c (54 / 100)
   \<and> confidence (getResponseForIntent mock ''exploration'' u c) = min c (65 / 100)
   \<and> confidence (getResponseForIntent mock ''incident'' u c) = c
   \<and> confidence (getResponseForIntent mock ''overview'' u c) = c
   \<and> confidence (getResponseForIntent mock ''escalation'' u c) = c"
  by (simp add: response_confidence)

text \<open>
  Claim C10. For every input string the pipeline of analysis and synthesis returns a
  document, and the confidence it holds lies between 0.45 and 0.95, hence strictly
  inside the interval from 0 to 1.
\<close>

theorem pipeline_confidence:
  "\<exists>doc. analyzeSituation mock input = Inr doc
      \<and> 45 / 100 \<le> confidence doc \<and> confidence doc \<le> 95 / 100
      \<and> 0 < confidence doc \<and> confidence doc < 1"
proof -
  define i where "i = spec_classifyIntent input"
  define c where "c = spec_confidence input i"
  define doc where "doc = getResponseForIntent mock i (spec_classifyUrgency input) c"
  have b: "45 / 100 \<le> c" "c \<le> 95 / 100"
    unfolding c_def by (rule spec_confidence_bounds)+
  have run: "analyzeSituation mock input = Inr doc"
    by (simp add: analyzeSituation_def analyze_eq i_def c_def doc_def)
  have "45 / 100 \<le> confidence doc \<and> confidence doc \<le> 95 / 100"
    unfolding doc_def response_confidence using b by auto
  then show ?thesis using run by auto
qed

lemma response_layout:
  "layout (getResponseForIntent mock i u c) =
     (if i = ''investigation'' then ''split'' else if i = ''escalation'' then ''stack''
      else ''grid'')"
  by (simp add: getResponseForIntent_def investigationResponse_def explorationResponse_def
      incidentResponse_def overviewResponse_def escalationResponse_def)

lemma response_urgency:
  "urgency (reasoning (getResponseForIntent mock i u c)) =
     (if i = ''incident'' then ''high'' else if i = ''overview'' then ''low''
      else if i = ''investigation'' then ''medium''
      else if i = ''escalation'' then ''critical'' else ''low'')"
  by (simp add: getResponseForIntent_def investigationResponse_def explorationResponse_def
      incidentResponse_def overviewResponse_def escalationResponse_def)

text \<open>
  Claim C5. Synthesis is keyed on the intent alone: the document does not depend on the
  urgency argument; its layout is grid for incident, overview and exploration, split for
  investigation and stack for escalation; its \<open>reasoning.urgency\<close> is the template's
  fixed label (high, low, medium, critical, low); and an intent outside the five known
  ones yields the exploration template.
\<close>

theorem synthesis_keyed_on_intent:
  "getResponseForIntent mock i u1 c = getResponseForIntent mock i u2 c
   \<and> layout (getResponseForIntent mock ''incident'' u c) = ''grid''
   \<and> layout (getResponseForIntent mock ''overview'' u c) = ''grid''
   \<and> layout (getResponseForIntent mock ''investigation'' u c) = ''split''
   \<and> layout (getResponseForIntent mock ''escalation'' u c) = ''stack''
   \<and> layout (getResponseForIntent mock ''exploration'' u c) = ''grid''
   \<and> urgency (reasoning (getResponseForIntent mock ''incident'' u c)) = ''high''
   \<and> urgency (reasoning (getResponseForIntent mock ''overview'' u c)) = ''low''
   \<and> urgency (reasoning (getResponseForIntent mock ''investigation'' u c)) = ''medium''
   \<and> urgency (reasoning (getResponseForIntent mock ''escalation'' u c)) = ''critical''
   \<and> urgency (reasoning (getResponseForIntent mock ''exploration'' u c)) = ''low''
   \<and> (i \<notin> set known_intents \<longrightarrow>
        getResponseForIntent mock i u c = explorationResponse mock c)"
proof -
  have "getResponseForIntent mock i u1 c = getResponseForIntent mock i u2 c"
    by (simp add: getResponseForIntent_def)
  moreover have "i \<notin> set known_intents \<longrightarrow>
        getResponseForIntent mock i u c = explorationResponse mock c"
    by (simp add: getResponseForIntent_def known_intents_def)
  ultimately show ?thesis
    by (simp add: response_layout response_urgency)
qed

theorem synthesis_keyed_on_intent_witness:
  "''triage'' \<notin> set known_intents
   \<and> getResponseForIntent (\<lambda>_ _. ()) ''triage'' ''critical'' (9 / 10)
       = explorationResponse (\<lambda>_ _. ()) (9 / 10)
   \<and> urgency (reasoning (getResponseForIntent (\<lambda>_ _. ()) ''incident'' ''critical'' (9 / 10))) = ''high''"
proof -
  have h: "''triage'' \<notin> set known_intents"
    by (simp add: known_intents_def)
  show ?thesis
    using h synthesis_keyed_on_intent[where mock = "\<lambda>_ _. ()" and i = "''triage''"
        and u = "''critical''" and c = "9 / 10" and ?u1.0 = "''low''" and ?u2.0 = "''high''"]
    by simp
qed

section \<open>Documented scenarios\<close>

text \<open>
  The response library documents what the analyzer makes of its demo prompts, and the
  specification what it makes of the empty input. The model computes the same.
\<close>

lemmas analyzer_eval =
  analyze_def classifyIntent_def classifyUrgency_def calculateConfidence_def
  URGENCY_SIGNALS_def score_all_def INTENT_PATTERNS_def initial_scores_def
  count_matches_def add_score_def js_def test_def canonicalize_def is_word_def is_space_def
  incident_patterns_def overview_patterns_def investigation_patterns_def
  escalation_patterns_def exploration_patterns_def critical_signals_def high_signals_def
  medium_signals_def low_signals_def

lemma demo_empty:
  "analyze [] =
     Inr \<lparr> AnalysisResult.intent = ''exploration'', AnalysisResult.urgency = ''low'',
           AnalysisResult.confidence = 60 / 100 \<rparr>"
  by (simp add: analyzer_eval)

lemma demo_incident:
  "analyze (js ''Users are reporting login failures'') =
     Inr \<lparr> AnalysisResult.intent = ''incident'', AnalysisResult.urgency = ''high'',
           AnalysisResult.confidence = 94 / 100 \<rparr>"
  by (simp add: analyzer_eval)

lemma demo_investigation:
  "analyze (js ''Something feels off, help me investigate'') =
     Inr \<lparr> AnalysisResult.intent = ''investigation'', AnalysisResult.urgency = ''medium'',
           AnalysisResult.confidence = 69 / 100 \<rparr>"
  by (simp add: analyzer_eval)

lemma demo_investigation_document:
  "\<exists>doc. analyzeSituation mock (js ''Something feels off, help me investigate'') = Inr doc
     \<and> layout doc = ''split'' \<and> confidence doc = 54 / 100
     \<and> urgency (reasoning doc) = ''medium''"
  by (simp add: analyzeSituation_def demo_investigation response_layout response_confidence
      response_urgency)

section \<open>The composition engine\<close>

lemma get_layout_known:
  "get_prop layoutMap ''grid'' = Some (Own GridLayout)"
  "get_prop layoutMap ''stack'' = Some (Own StackLayout)"
  "get_prop layoutMap ''split'' = Some (Own SplitLayout)"
  "get_prop layoutMap ''overlay'' = Some (Own OverlayLayout)"
  by (simp_all add: get_prop_def layoutMap_def)

lemma get_layout_unknown:
  assumes "l \<notin> set recognized_layouts"
  shows "get_prop layoutMap l = (if l \<in> set object_prototype_keys then Some (Inherited l) else None)"
  using assms by (simp add: get_prop_def layoutMap_def recognized_layouts_def)

lemma recognized_not_inherited:
  "l \<in> set recognized_layouts \<Longrightarrow> l \<notin> set object_prototype_keys"
  by (auto simp: recognized_layouts_def object_prototype_keys_def)

lemma body_eq:
  "body (SentinelComposition s) =
     (case get_prop layoutMap (layout s) of
        Some (Own L) \<Rightarrow> Arranged (L (prioritized s))
      | Some (Inherited k) \<Rightarrow> NotALayout k
      | None \<Rightarrow> Arranged (GridLayout (prioritized s)))"
  by (simp add: SentinelComposition_def prioritized_def Let_def split: option.splits property.splits)

lemma body_cases:
  "body (SentinelComposition s) =
     (if layout s = ''grid'' then Arranged (GridLayout (prioritized s))
      else if layout s = ''stack'' then Arranged (StackLayout (prioritized s))
      else if layout s = ''split'' then Arranged (SplitLayout (prioritized s))
      else if layout s = ''overlay'' then Arranged (OverlayLayout (prioritized s))
      else if layout s \<in> set object_prototype_keys then NotALayout (layout s)
      else Arranged (GridLayout (prioritized s)))"
proof (cases "layout s \<in> set recognized_layouts")
  case True
  then show ?thesis
    by (auto simp: body_eq recognized_layouts_def get_layout_known)
next
  case False
  then have "layout s \<noteq> ''grid''" "layout s \<noteq> ''stack''" "layout s \<noteq> ''split''"
    "layout s \<noteq> ''overlay''" by (auto simp: recognized_layouts_def)
  then show ?thesis
    by (simp add: body_eq get_layout_unknown[OF False])
qed

lemma keys_render_all:
  "map key (render_all cls fl specs) = map cid (filter resolvable specs)"
  by (induction specs)
    (auto simp: render_all_def List.map_filter_simps render_entry_def resolvable_def
      split: option.splits)


lemma set_prioritized:
  "set (prioritized s) = {e \<in> set (components s). visibility e = visible}"
  by (auto simp: prioritized_def)

lemma sorted_prioritized: "sorted (map priority (prioritized s))"
  by (simp add: prioritized_def)

lemma stable_prioritized:
  "filter (\<lambda>e. priority e = k) (prioritized s) =
     filter (\<lambda>e. priority e = k) (filter (\<lambda>c. visibility c = visible) (components s))"
  unfolding prioritized_def by (rule sort_key_stable)

lemma mset_prioritized:
  "mset (prioritized s) = mset (filter (\<lambda>c. visibility c = visible) (components s))"
  by (simp add: prioritized_def)

lemma sorted_partition:
  fixes t :: "'k::linorder"
  assumes "sorted (map f xs)"
  shows "filter (\<lambda>x. f x \<le> t) xs @ filter (\<lambda>x. f x > t) xs = xs"
  using assms
proof (induction xs)
  case Nil
  then show ?case by simp
next
  case (Cons x xs)
  show ?case
  proof (cases "f x \<le> t")
    case True
    with Cons show ?thesis by simp
  next
    case False
    with Cons.prems have "\<forall>y \<in> set xs. \<not> f y \<le> t" by auto
    then have "filter (\<lambda>x. f x \<le> t) xs = []" "filter (\<lambda>x. f x > t) xs = xs"
      by (auto simp: filter_empty_conv filter_id_conv)
    with False show ?thesis by simp
  qed
qed

lemma placed_keys:
  assumes "L \<in> {GridLayout, StackLayout, SplitLayout, OverlayLayout}"
    and "sorted (map priority specs)"
  shows "map key (placed (L specs)) = map cid (filter resolvable specs)"
proof -
  have split: "map key (placed (SplitLayout specs)) = map cid (filter resolvable specs)"
    unfolding SplitLayout_def Let_def placed.simps map_append keys_render_all
    by (simp flip: map_append filter_append)
  let ?hi = "filter (\<lambda>c. priority c \<le> 2) specs"
  let ?lo = "filter (\<lambda>c. priority c > 2) specs"
  have part: "?hi @ ?lo = specs"
    by (rule sorted_partition[OF assms(2)])
  have "map key (overlay_layer (OverlayLayout specs)) = map cid (filter resolvable ?hi)"
    by (cases "?hi = []") (simp_all add: OverlayLayout_def Let_def keys_render_all)
  moreover have "map key (base_layer (OverlayLayout specs)) = map cid (filter resolvable ?lo)"
    by (simp add: OverlayLayout_def Let_def keys_render_all)
  moreover have "placed (OverlayLayout specs)
      = overlay_layer (OverlayLayout specs) @ base_layer (OverlayLayout specs)"
    by (simp add: OverlayLayout_def Let_def)
  ultimately have "map key (placed (OverlayLayout specs))
      = map cid (filter resolvable (?hi @ ?lo))"
    by simp
  then have ov: "map key (placed (OverlayLayout specs)) = map cid (filter resolvable specs)"
    by (simp only: part)
  show ?thesis
    using assms(1) split ov by (auto simp: GridLayout_def StackLayout_def keys_render_all)
qed

lemma composition_placed_keys:
  assumes "layout s \<notin> set object_prototype_keys"
  shows "\<exists>a. body (SentinelComposition s) = Arranged a
           \<and> map key (placed a) = map cid (filter resolvable (prioritized s))"
  using assms placed_keys[OF _ sorted_prioritized, of _ s]
  by (auto simp: body_cases)

lemma resolvable_iff:
  "resolvable e \<longleftrightarrow>
     ctype e \<in> set getRegisteredTypes \<or> ctype e \<in> set object_prototype_keys"
proof -
  have "map_of componentRegistry (ctype e) \<noteq> None \<longleftrightarrow> ctype e \<in> set getRegisteredTypes"
    by (simp add: getRegisteredTypes_def map_of_eq_None_iff)
  then show ?thesis
    by (auto simp: resolvable_def resolveComponent_def get_prop_def split: option.splits)
qed

lemma placement_of_registered:
  assumes "layout s \<notin> set object_prototype_keys"
    and "\<forall>e \<in> set (components s). ctype e \<notin> set object_prototype_keys"
  shows "\<exists>a. body (SentinelComposition s) = Arranged a
           \<and> map key (placed a)
               = map cid (filter (\<lambda>e. ctype e \<in> set getRegisteredTypes) (prioritized s))"
proof -
  have "filter resolvable (prioritized s)
          = filter (\<lambda>e. ctype e \<in> set getRegisteredTypes) (prioritized s)"
    using assms(2) by (intro filter_cong) (auto simp: resolvable_iff set_prioritized)
  with composition_placed_keys[OF assms(1)] show ?thesis by simp
qed

lemma unknown_layout_falls_back:
  assumes "layout s \<notin> set recognized_layouts" "layout s \<notin> set object_prototype_keys"
  shows "body (SentinelComposition s) = Arranged (GridLayout (prioritized s))"
  using assms by (simp add: body_cases recognized_layouts_def)







text \<open>
  Claim C6 says that the placement holds exactly the visible entries whose type is in
  the registry. It fails at a visible entry of type \<open>toString\<close>: the name is not
  registered, \<open>componentRegistry[type]\<close> finds \<open>Object.prototype.toString\<close>, which
  is not nullish, so \<open>resolveComponent\<close> does not return \<open>null\<close> and the grid layout
  emits a cell for the entry.
\<close>

theorem unregistered_type_is_placed:
  "''toString'' \<notin> set getRegisteredTypes
   \<and> body (SentinelComposition stray_type_doc) =
       Arranged (GridPlan
         [ \<lparr> key = ''panel-1'', width = half, floating = False, animationDelay = 60,
             child_type = Inherited ''toString'', child_props = () \<rparr> ])"
  by (simp add: getRegisteredTypes_def componentRegistry_def SentinelComposition_def
      stray_type_doc_def get_prop_def layoutMap_def GridLayout_def render_all_def
      List.map_filter_simps render_entry_def resolveComponent_def object_prototype_keys_def)

text \<open>
  Claim C8 says that every layout value outside the four recognized ones is composed by
  the grid strategy. It fails at the layout value \<open>constructor\<close>:
  \<open>layoutMap[schema.layout]\<close> finds \<open>Object.prototype.constructor\<close>, which is not
  nullish, so the \<open>??\<close> fallback to \<open>GridLayout\<close> is not taken and no strategy of
  the engine is applied.
\<close>

theorem inherited_layout_not_grid:
  "layout stray_layout_doc \<notin> set recognized_layouts
   \<and> body (SentinelComposition stray_layout_doc) = NotALayout ''constructor''
   \<and> body (SentinelComposition stray_layout_doc)
       \<noteq> Arranged (GridLayout (prioritized stray_layout_doc))"
  by (simp add: body_cases stray_layout_doc_def recognized_layouts_def object_prototype_keys_def)







end
